theory Spec2Isabelle
  imports Complex_Main
begin

section \<open>ImageClassifier: a shallow embedding of model.py\<close>

text \<open>
  The class \<^verbatim>\<open>ImageClassifier\<close> of \<^verbatim>\<open>model.py\<close> wires three libraries together:
  the deep-learning framework (backbones, layers, \<^verbatim>\<open>fit\<close>, \<^verbatim>\<open>evaluate\<close>,
  \<^verbatim>\<open>predict\<close>, \<^verbatim>\<open>save\<close>), the statistics library (class weights and metrics) and
  the plotting library. The embedding keeps the control flow and the data flow of
  the class as they are written. What a library computes is not in the repository:
  its results enter as fields of the records \<open>keras\<close> and \<open>sklearn\<close> below, which
  every operation takes as its first arguments, and every call that acts on the
  outside (fitting, creating a directory, saving, drawing, printing) is appended,
  with its arguments, to a trace of events. The exceptions modelled are the ones
  the expressions of \<^verbatim>\<open>model.py\<close> raise themselves and the ones the framework
  raises while the model is built; the other library calls are taken to return.
  Floating-point numbers are modelled as reals.
\<close>

subsection \<open>Strings and paths\<close>

text \<open>
  A Python \<^verbatim>\<open>str\<close> is a sequence of code points. A \<open>char\<close> here stands for the code
  point of the same number, so the strings covered are those of the range 0 to 255.
  On that range \<^verbatim>\<open>str.lower\<close> moves the capital letters A to Z (65 to 90) and the
  capital letters 192 to 222 other than the multiplication sign 215 up by 32, and
  leaves every other code point alone.
\<close>

definition lower_char :: "char \<Rightarrow> char" where
  "lower_char c =
     (let n = (of_char c :: nat)
      in if (65 \<le> n \<and> n \<le> 90) \<or> (192 \<le> n \<and> n \<le> 214) \<or> (216 \<le> n \<and> n \<le> 222)
         then char_of (n + 32) else c)"

definition lower :: "string \<Rightarrow> string" where
  "lower s = map lower_char s"

text \<open>The ASCII case folding against which case-insensitivity is stated.\<close>

definition ascii_lower :: "char \<Rightarrow> char" where
  "ascii_lower c =
     (let n = (of_char c :: nat)
      in if 65 \<le> n \<and> n \<le> 90 then char_of (n + 32) else c)"

definition eq_ascii_case :: "string \<Rightarrow> string \<Rightarrow> bool" where
  "eq_ascii_case s t = (map ascii_lower s = map ascii_lower t)"

text \<open>
  \<^verbatim>\<open>os.path.join(a, b)\<close> on a POSIX system: an absolute second component
  replaces the first; otherwise the components are joined by one slash, none being
  added when the first is empty or already ends in one.
\<close>

definition os_path_join :: "string \<Rightarrow> string \<Rightarrow> string" where
  "os_path_join a b =
     (if b \<noteq> [] \<and> hd b = CHR ''/'' then b
      else if a = [] \<or> last a = CHR ''/'' then a @ b
      else a @ ''/'' @ b)"

subsection \<open>Data\<close>

datatype error = ValueError string | IndexError | KeyError string

text \<open>A shape is a Python tuple of integers.\<close>

type_synonym shape = "int list"

datatype backbone = VGG16 | InceptionV3 | ResNet50

text \<open>
  A layer is what it computes together with its \<^verbatim>\<open>trainable\<close> flag. The layers of a
  pre-trained network are the library's; they are known here by a number only.
\<close>

datatype layer_op = Pretrained nat | GlobalAveragePooling2D | Dense int string

record layer =
  op :: layer_op
  trainable :: bool

text \<open>
  A call of a backbone constructor: which of the three, and its keyword arguments
  \<^verbatim>\<open>weights\<close>, \<^verbatim>\<open>include_top\<close> and \<^verbatim>\<open>input_shape\<close>.
\<close>

record constructor_call =
  call_arch :: backbone
  call_weights :: string
  call_include_top :: bool
  call_input_shape :: shape

text \<open>
  The base model records the constructor call that made it (\<^verbatim>\<open>weights\<close>,
  \<^verbatim>\<open>include_top\<close>, \<^verbatim>\<open>input_shape\<close>) and holds its layers.
\<close>

record base_model =
  arch :: backbone
  weights_arg :: string
  include_top :: bool
  bm_input_shape :: shape
  bm_layers :: "layer list"

text \<open>
  The final \<^verbatim>\<open>Model(inputs=base_model.input, outputs=x)\<close>: the base model, the layers
  applied to its output in order, the arguments of \<^verbatim>\<open>compile\<close>, and the current
  values of the weights.
\<close>

record keras_model =
  base :: base_model
  head :: "layer list"
  optimizer :: string
  loss :: string
  metrics :: "string list"
  variables :: "real list"

definition model_layers :: "keras_model \<Rightarrow> layer list" where
  "model_layers m = bm_layers (base m) @ head m"

record classifier =
  input_shape :: shape
  num_classes :: int
  activation :: string
  base_model_name :: string
  model :: keras_model

text \<open>
  A data generator: the label of every sample (\<^verbatim>\<open>classes\<close>) and the dictionary
  from class name to label (\<^verbatim>\<open>class_indices\<close>), in insertion order.
\<close>

record generator =
  classes :: "int list"
  class_indices :: "(string \<times> int) list"

text \<open>The \<^verbatim>\<open>history\<close> dictionary of the object that \<^verbatim>\<open>fit\<close> returns.\<close>

type_synonym history = "(string \<times> real list) list"

datatype callback = EarlyStopping string int bool

text \<open>
  The arguments of one \<^verbatim>\<open>fit\<close> call. \<open>fit_class_weight\<close> is \<open>None\<close> when the keyword
  is not passed; \<open>EarlyStopping monitor patience restore_best_weights\<close>.
\<close>

record fit_args =
  fit_x :: generator
  steps_per_epoch :: int
  fit_epochs :: int
  fit_validation_data :: generator
  validation_steps :: int
  fit_class_weight :: "(int \<times> real) list option"
  callbacks :: "callback list"

text \<open>
  What the deep-learning framework computes. \<open>application_error\<close> is the exception,
  if any, that a backbone constructor raises after it has accepted the input
  shape (for instance when the pre-trained weights cannot be loaded);
  \<open>head_error\<close> is the exception, if any, raised while the head is added and the
  model is made and compiled (for instance by \<^verbatim>\<open>Dense\<close> for a number of units
  that is not positive).
\<close>

record keras =
  application_layers :: "backbone \<Rightarrow> shape \<Rightarrow> layer list"
  application_error :: "backbone \<Rightarrow> shape \<Rightarrow> error option"
  head_error :: "backbone \<Rightarrow> shape \<Rightarrow> int \<Rightarrow> string \<Rightarrow> error option"
  initial_variables :: "backbone \<Rightarrow> shape \<Rightarrow> int \<Rightarrow> real list"
  fit :: "keras_model \<Rightarrow> fit_args \<Rightarrow> real list \<times> history"
  model_evaluate :: "keras_model \<Rightarrow> generator \<Rightarrow> int \<Rightarrow> real list"
  model_predict :: "keras_model \<Rightarrow> generator \<Rightarrow> int \<Rightarrow> real list list"

subsection \<open>Construction\<close>

text \<open>
  The smallest height and width that each backbone accepts, and how the
  framework writes it in its message.
\<close>

definition min_size :: "backbone \<Rightarrow> int" where
  "min_size a = (case a of VGG16 \<Rightarrow> 32 | InceptionV3 \<Rightarrow> 75 | ResNet50 \<Rightarrow> 32)"

definition min_size_text :: "backbone \<Rightarrow> string" where
  "min_size_text a =
     (case a of VGG16 \<Rightarrow> ''32x32'' | InceptionV3 \<Rightarrow> ''75x75'' | ResNet50 \<Rightarrow> ''32x32'')"

text \<open>
  The framework's check of \<^verbatim>\<open>input_shape\<close>, with which every backbone constructor
  begins, for the arguments this class passes (imagenet weights, no top, channels
  last): the shape must have three components, the last of them 3, and height
  and width must not be below the backbone's minimum. Otherwise the constructor
  raises ValueError; the messages are the framework's, the third up to the point
  where it goes on to quote the shape received.
\<close>

definition obtain_input_shape :: "backbone \<Rightarrow> shape \<Rightarrow> error + shape" where
  "obtain_input_shape a s =
     (if length s \<noteq> 3 then
        Inl (ValueError ''`input_shape` must be a tuple of three integers.'')
      else if last s \<noteq> 3 then
        Inl (ValueError ''The input must have 3 channels'')
      else if s ! 0 < min_size a \<or> s ! 1 < min_size a then
        Inl (ValueError (''Input size must be at least '' @ min_size_text a))
      else Inr s)"

text \<open>
  \<^verbatim>\<open>VGG16(weights="imagenet", include_top=False, input_shape=...)\<close> and its two
  siblings: the constructor checks the input shape, builds the network and
  loads the weights. An exception of any of these steps leaves the constructor;
  otherwise the base model records the call and has the library's layers.
\<close>

definition application :: "keras \<Rightarrow> constructor_call \<Rightarrow> error + base_model" where
  "application K c =
     (case obtain_input_shape (call_arch c) (call_input_shape c) of
        Inl e \<Rightarrow> Inl e
      | Inr s \<Rightarrow>
          (case application_error K (call_arch c) s of
             Some e \<Rightarrow> Inl e
           | None \<Rightarrow>
               Inr \<lparr>arch = call_arch c, weights_arg = call_weights c,
                    include_top = call_include_top c, bm_input_shape = s,
                    bm_layers = application_layers K (call_arch c) s\<rparr>))"

text \<open>
  The \<^verbatim>\<open>if/elif/else\<close> chain at the head of \<^verbatim>\<open>_build_model\<close>: the constructor call
  that each supported name selects, with \<^verbatim>\<open>self.input_shape + (3,)\<close> as its input
  shape, and the ValueError for every other name.
\<close>

definition backbone_call :: "shape \<Rightarrow> string \<Rightarrow> error + constructor_call" where
  "backbone_call self_input_shape self_base_model_name =
     (if self_base_model_name = ''vgg16'' then
        Inr \<lparr>call_arch = VGG16, call_weights = ''imagenet'', call_include_top = False,
             call_input_shape = self_input_shape @ [3]\<rparr>
      else if self_base_model_name = ''inceptionv3'' then
        Inr \<lparr>call_arch = InceptionV3, call_weights = ''imagenet'', call_include_top = False,
             call_input_shape = self_input_shape @ [3]\<rparr>
      else if self_base_model_name = ''resnet50'' then
        Inr \<lparr>call_arch = ResNet50, call_weights = ''imagenet'', call_include_top = False,
             call_input_shape = self_input_shape @ [3]\<rparr>
      else Inl (ValueError (''Unsupported base model name: '' @ self_base_model_name)))"

text \<open>
  \<^verbatim>\<open>_build_model\<close>, reading the four attributes that \<^verbatim>\<open>__init__\<close> has set: the
  selected constructor is called, the loop over \<^verbatim>\<open>base_model.layers\<close> (the \<open>map\<close>)
  clears every flag, and the head is added and the model made and compiled. A
  layer made by its constructor is trainable. An exception of the backbone
  constructor or of the head leaves \<^verbatim>\<open>_build_model\<close>.
\<close>

definition build_model :: "keras \<Rightarrow> shape \<Rightarrow> int \<Rightarrow> string \<Rightarrow> string \<Rightarrow> error + keras_model" where
  "build_model K self_input_shape self_num_classes self_activation self_base_model_name =
     (case backbone_call self_input_shape self_base_model_name of
        Inl e \<Rightarrow> Inl e
      | Inr c \<Rightarrow>
          (case application K c of
             Inl e \<Rightarrow> Inl e
           | Inr base_model \<Rightarrow>
               let frozen = base_model\<lparr>bm_layers := map (\<lambda>l. l\<lparr>trainable := False\<rparr>) (bm_layers base_model)\<rparr>
               in (case head_error K (arch base_model) (bm_input_shape base_model)
                          self_num_classes self_activation of
                     Some e \<Rightarrow> Inl e
                   | None \<Rightarrow>
                       Inr \<lparr>base = frozen,
                            head = [\<lparr>op = GlobalAveragePooling2D, trainable = True\<rparr>,
                                    \<lparr>op = Dense self_num_classes self_activation, trainable = True\<rparr>],
                            optimizer = ''adam'', loss = ''binary_crossentropy'',
                            metrics = [''accuracy''],
                            variables = initial_variables K (arch base_model)
                                          (bm_input_shape base_model) self_num_classes\<rparr>)))"

text \<open>
  \<^verbatim>\<open>__init__\<close>: an exception of \<^verbatim>\<open>_build_model\<close> leaves the constructor, and no object
  is returned.
\<close>

definition init :: "keras \<Rightarrow> shape \<Rightarrow> int \<Rightarrow> string \<Rightarrow> string \<Rightarrow> error + classifier" where
  "init K input_shape' num_classes' activation' base_model_name' =
     (let name = lower base_model_name'
      in case build_model K input_shape' num_classes' activation' name of
           Inl e \<Rightarrow> Inl e
         | Inr m \<Rightarrow> Inr \<lparr>input_shape = input_shape', num_classes = num_classes',
                          activation = activation', base_model_name = name, model = m\<rparr>)"

subsection \<open>The statistics library and the trace\<close>

text \<open>
  What the statistics library computes from the true and the predicted labels.
  \<open>f1_score\<close> also takes its \<^verbatim>\<open>average\<close> keyword.
\<close>

record sklearn =
  accuracy_score :: "int list \<Rightarrow> int list \<Rightarrow> real"
  f1_score :: "int list \<Rightarrow> int list \<Rightarrow> string \<Rightarrow> real"
  roc_auc_score :: "int list \<Rightarrow> int list \<Rightarrow> real"
  precision_recall_curve :: "int list \<Rightarrow> int list \<Rightarrow> real list \<times> real list \<times> real list"
  confusion_matrix :: "int list \<Rightarrow> int list \<Rightarrow> int list list"
  precision_score :: "int list \<Rightarrow> int list \<Rightarrow> real"
  recall_score :: "int list \<Rightarrow> int list \<Rightarrow> real"

text \<open>
  The calls that act on the outside, with their arguments: \<open>FitCall m args\<close> is
  \<^verbatim>\<open>m.fit(...)\<close>, \<open>Makedirs p e\<close> is \<^verbatim>\<open>os.makedirs(p, exist_ok=e)\<close>, \<open>ModelSave m p\<close> is
  \<^verbatim>\<open>m.save(p)\<close>, \<open>PredictCall g steps verbose\<close> is \<^verbatim>\<open>predict\<close>, the others are the
  plotting calls and \<^verbatim>\<open>print\<close>. A formatted text is kept as its pieces, each a
  label and the number printed after it.
\<close>

datatype event =
    FitCall keras_model fit_args
  | EvaluateCall generator int
  | PredictCall generator int int
  | Makedirs string bool
  | ModelSave keras_model string
  | Figure int int
  | Subplot int int int
  | Plot "real list" "real list" "string option"
  | Legend string
  | Title string
  | PltText "(string \<times> real) list"
  | Xlabel string
  | Ylabel string
  | Heatmap "int list list" "string list" "string list"
  | Savefig string
  | Show
  | Print string real

fun fit_calls :: "event list \<Rightarrow> fit_args list" where
  "fit_calls [] = []"
| "fit_calls (FitCall m a # es) = a # fit_calls es"
| "fit_calls (e # es) = fit_calls es"

fun saves :: "event list \<Rightarrow> (keras_model \<times> string) list" where
  "saves [] = []"
| "saves (ModelSave m p # es) = (m, p) # saves es"
| "saves (e # es) = saves es"

fun made_dirs :: "event list \<Rightarrow> string list" where
  "made_dirs [] = []"
| "made_dirs (Makedirs p e # es) = p # made_dirs es"
| "made_dirs (e # es) = made_dirs es"

subsection \<open>Library routines used by the class\<close>

text \<open>\<^verbatim>\<open>xs[i]\<close> for a literal index that is not negative.\<close>

definition getitem :: "'a list \<Rightarrow> nat \<Rightarrow> error + 'a" where
  "getitem xs i = (if i < length xs then Inr (xs ! i) else Inl IndexError)"

text \<open>\<^verbatim>\<open>d[k]\<close> on a dictionary.\<close>

definition lookup :: "(string \<times> 'v) list \<Rightarrow> string \<Rightarrow> error + 'v" where
  "lookup d k = (case map_of d k of None \<Rightarrow> Inl (KeyError k) | Some v \<Rightarrow> Inr v)"

text \<open>\<^verbatim>\<open>np.unique\<close>: the distinct values in ascending order.\<close>

definition np_unique :: "int list \<Rightarrow> int list" where
  "np_unique ys = sort (remdups ys)"

text \<open>
  \<^verbatim>\<open>compute_class_weight(class_weight="balanced", classes=cs, y=ys)\<close>: for each
  class of \<open>cs\<close>, the number of samples divided by the number of distinct labels
  times the number of samples of that class. The library rejects a class that does
  not occur in \<open>ys\<close>.
\<close>

definition compute_class_weight :: "int list \<Rightarrow> int list \<Rightarrow> error + real list" where
  "compute_class_weight cs ys =
     (if \<not> set cs \<subseteq> set ys then Inl (ValueError ''classes should have valid labels that are in y'')
      else Inr (map (\<lambda>c. real (length ys) / (real (length (np_unique ys)) * real (count_list ys c))) cs))"

text \<open>
  \<^verbatim>\<open>np.argmax\<close> of one row: the index of the first greatest entry, found by a scan
  that keeps the best entry so far and its index.
\<close>

fun argmax_from :: "real list \<Rightarrow> nat \<Rightarrow> real \<Rightarrow> nat \<Rightarrow> nat" where
  "argmax_from [] i best bi = bi"
| "argmax_from (x # xs) i best bi =
     (if best < x then argmax_from xs (Suc i) x i else argmax_from xs (Suc i) best bi)"

definition np_argmax :: "real list \<Rightarrow> error + nat" where
  "np_argmax row =
     (case row of
        [] \<Rightarrow> Inl (ValueError ''attempt to get argmax of an empty sequence'')
      | x # xs \<Rightarrow> Inr (argmax_from xs 1 x 0))"

text \<open>\<^verbatim>\<open>np.argmax(prediction, axis=1)\<close>: one index for every row.\<close>

fun np_argmax_axis1 :: "real list list \<Rightarrow> error + int list" where
  "np_argmax_axis1 [] = Inr []"
| "np_argmax_axis1 (row # rows) =
     (case np_argmax row of
        Inl e \<Rightarrow> Inl e
      | Inr k \<Rightarrow> (case np_argmax_axis1 rows of Inl e \<Rightarrow> Inl e | Inr ks \<Rightarrow> Inr (int k # ks)))"

text \<open>What it means for \<open>k\<close> to be the argmax of a row.\<close>

definition is_first_max :: "real list \<Rightarrow> nat \<Rightarrow> bool" where
  "is_first_max row k =
     (k < length row \<and> list_all (\<lambda>x. x \<le> row ! k) row \<and> list_all (\<lambda>x. x < row ! k) (take k row))"

subsection \<open>The operations\<close>

text \<open>
  Every operation takes the object and the trace so far and returns its result,
  the object and the extended trace, or the exception that ended it.
\<close>

text \<open>
  \<^verbatim>\<open>self.model.fit(...)\<close>: the library returns the history and leaves the model
  with the fitted weights.
\<close>

definition model_fit :: "keras \<Rightarrow> keras_model \<Rightarrow> fit_args \<Rightarrow> history \<times> keras_model \<times> event" where
  "model_fit K m args =
     (let (vars, history) = fit K m args
      in (history, m\<lparr>variables := vars\<rparr>, FitCall m args))"

definition train ::
  "keras \<Rightarrow> classifier \<Rightarrow> generator \<Rightarrow> generator \<Rightarrow> int \<Rightarrow> int \<Rightarrow> int \<Rightarrow> bool \<Rightarrow> bool \<Rightarrow>
   event list \<Rightarrow> error + (history \<times> classifier \<times> event list)" where
  "train K self train_data validation_data epochs step_size_train step_size_val
         class_weights augment w =
     (let early_stop = EarlyStopping ''val_loss'' 13 True;
          base_dir = ''models'';
          name = base_model_name self
      in case
           (if class_weights then
              (case compute_class_weight (np_unique (classes train_data)) (classes train_data) of
                 Inl e \<Rightarrow> Inl e
               | Inr class_weight \<Rightarrow>
                   (case getitem class_weight 0 of
                      Inl e \<Rightarrow> Inl e
                    | Inr w0 \<Rightarrow>
                        (case getitem class_weight 1 of
                           Inl e \<Rightarrow> Inl e
                         | Inr w1 \<Rightarrow>
                             let weights = [(0, w0), (1, w1)];
                                 (history, fitted, ev) =
                                   model_fit K (model self)
                                     \<lparr>fit_x = train_data, steps_per_epoch = step_size_train,
                                      fit_epochs = epochs, fit_validation_data = validation_data,
                                      validation_steps = step_size_val,
                                      fit_class_weight = Some weights,
                                      callbacks = [early_stop]\<rparr>;
                                 model_dir = os_path_join base_dir (name @ ''_with_weights'');
                                 filepath = os_path_join model_dir (name @ ''_with_weights.h5'')
                             in Inr (history, fitted, ev, model_dir, filepath))))
            else
              (let (history, fitted, ev) =
                     model_fit K (model self)
                       \<lparr>fit_x = train_data, steps_per_epoch = step_size_train,
                        fit_epochs = epochs, fit_validation_data = validation_data,
                        validation_steps = step_size_val,
                        fit_class_weight = None,
                        callbacks = [early_stop]\<rparr>
               in if augment then
                    (let model_dir = os_path_join base_dir (name @ ''_data_augmentation'');
                         filepath = os_path_join model_dir (name @ ''_data_augmentation.h5'')
                     in Inr (history, fitted, ev, model_dir, filepath))
                  else
                    (let model_dir = os_path_join base_dir name;
                         filepath = os_path_join model_dir (name @ ''.h5'')
                     in Inr (history, fitted, ev, model_dir, filepath))))
         of
           Inl e \<Rightarrow> Inl e
         | Inr (history, fitted, ev, model_dir, filepath) \<Rightarrow>
             Inr (history, self\<lparr>model := fitted\<rparr>,
                  w @ [ev, Makedirs model_dir True, ModelSave fitted filepath]))"

definition evaluate ::
  "keras \<Rightarrow> classifier \<Rightarrow> generator \<Rightarrow> int \<Rightarrow> event list \<Rightarrow> real list \<times> classifier \<times> event list" where
  "evaluate K self val_data step_size w =
     (model_evaluate K (model self) val_data step_size, self, w @ [EvaluateCall val_data step_size])"

definition test ::
  "keras \<Rightarrow> classifier \<Rightarrow> generator \<Rightarrow> int \<Rightarrow> event list \<Rightarrow> real list list \<times> classifier \<times> event list" where
  "test K self test_generator step_size_test w =
     (let prediction = model_predict K (model self) test_generator step_size_test
      in (prediction, self, w @ [PredictCall test_generator step_size_test 1]))"

definition plot_training_performance ::
  "classifier \<Rightarrow> history \<Rightarrow> bool \<Rightarrow> bool \<Rightarrow> event list \<Rightarrow> error + (classifier \<times> event list)" where
  "plot_training_performance self history class_weights augment w =
     (case lookup history ''accuracy'' of Inl e \<Rightarrow> Inl e | Inr acc \<Rightarrow>
      case lookup history ''val_accuracy'' of Inl e \<Rightarrow> Inl e | Inr val_acc \<Rightarrow>
      case lookup history ''loss'' of Inl e \<Rightarrow> Inl e | Inr loss' \<Rightarrow>
      case lookup history ''val_loss'' of Inl e \<Rightarrow> Inl e | Inr val_loss \<Rightarrow>
      let num_epochs = length loss';
          range = map real [0 ..< num_epochs];
          w1 = w @ [Figure 15 15, Subplot 2 2 1,
                    Plot range acc (Some ''Training Accuracy''),
                    Plot range val_acc (Some ''Validation Accuracy''),
                    Legend ''lower right'', Title ''Training and Validation Accuracy'',
                    Subplot 2 2 2,
                    Plot range loss' (Some ''Training Loss''),
                    Plot range val_loss (Some ''Validation Loss''),
                    Legend ''upper right'', Title ''Training and Validation Loss'',
                    Subplot 2 2 4]
      in
      case getitem acc 0 of Inl e \<Rightarrow> Inl e | Inr acc0 \<Rightarrow>
      case getitem val_acc 0 of Inl e \<Rightarrow> Inl e | Inr val_acc0 \<Rightarrow>
      case getitem loss' 0 of Inl e \<Rightarrow> Inl e | Inr loss0 \<Rightarrow>
      case getitem val_loss 0 of Inl e \<Rightarrow> Inl e | Inr val_loss0 \<Rightarrow>
      let w2 = w1 @ [PltText [(''Training Acc: '', acc0), (''Val Acc: '', val_acc0),
                              (''Training Loss: '', loss0), (''Val Loss: '', val_loss0)]];
          base_dir = ''graphs'';
          name = base_model_name self;
          model_dir =
            (if class_weights then os_path_join base_dir (name @ ''_with_weights'')
             else if augment then os_path_join base_dir (name @ ''_data_augmentation'')
             else os_path_join base_dir name);
          filepath = os_path_join model_dir ''training_validation_graphs.png''
      in Inr (self, w2 @ [Makedirs model_dir True, Savefig filepath, Show]))"

definition evaluation_metrics ::
  "sklearn \<Rightarrow> classifier \<Rightarrow> real list list \<Rightarrow> generator \<Rightarrow> bool \<Rightarrow> bool \<Rightarrow> event list \<Rightarrow>
   error + (classifier \<times> event list)" where
  "evaluation_metrics S self prediction test_generator class_weights augment w =
     (case np_argmax_axis1 prediction of Inl e \<Rightarrow> Inl e | Inr pred \<Rightarrow>
      let true_labels = classes test_generator;
          accuracy = accuracy_score S true_labels pred;
          f1 = f1_score S true_labels pred ''macro'';
          roc_auc = roc_auc_score S true_labels pred;
          (prec, recall, thresholds) = precision_recall_curve S true_labels pred;
          w1 = w @ [Figure 15 15, Subplot 2 2 1, Plot prec recall None,
                    Title ''Precision vs Recall'', Subplot 2 2 2,
                    PltText [(''F1 Score: '', f1), (''ROC AUC: '', roc_auc), (''Acc: '', accuracy)]];
          base_dir = ''graphs'';
          name = base_model_name self;
          model_dir =
            (if class_weights then os_path_join base_dir (name @ ''_with_weights'')
             else if augment then os_path_join base_dir (name @ ''_data_augmentation'')
             else os_path_join base_dir name);
          filepath = os_path_join model_dir ''precision_recall_graph.png'';
          w2 = w1 @ [Makedirs model_dir True, Savefig filepath];
          conf_mat = confusion_matrix S true_labels pred;
          class_labels = class_indices test_generator;
          class_names = map fst class_labels;
          filepath2 = os_path_join model_dir ''confusion_matrix.png'';
          w3 = w2 @ [Figure 8 8, Heatmap conf_mat class_names class_names,
                     Title ''Confusion Matrix'', Xlabel ''Predicted'', Ylabel ''Actual'',
                     Savefig filepath2, Show]
      in Inr (self, w3 @ [Print ''Accuracy:'' accuracy,
                          Print ''Precision:'' (precision_score S true_labels pred),
                          Print ''Recall:'' (recall_score S true_labels pred),
                          Print ''F1 Score:'' f1,
                          Print ''ROC AUC Score: '' roc_auc]))"

text \<open>
  A client's use of an object: any sequence of calls of its methods, stopped by
  the first exception.
\<close>

datatype call =
    Train generator generator int int int bool bool
  | Evaluate generator int
  | Test generator int
  | PlotTrainingPerformance history bool bool
  | EvaluationMetrics "real list list" generator bool bool

fun run_call :: "keras \<Rightarrow> sklearn \<Rightarrow> call \<Rightarrow> classifier \<Rightarrow> event list \<Rightarrow> error + (classifier \<times> event list)" where
  "run_call K S (Train td vd e st sv cw aug) self w =
     (case train K self td vd e st sv cw aug w of Inl e \<Rightarrow> Inl e | Inr (h, self', w') \<Rightarrow> Inr (self', w'))"
| "run_call K S (Evaluate vd st) self w =
     (case evaluate K self vd st w of (r, self', w') \<Rightarrow> Inr (self', w'))"
| "run_call K S (Test tg st) self w =
     (case test K self tg st w of (r, self', w') \<Rightarrow> Inr (self', w'))"
| "run_call K S (PlotTrainingPerformance h cw aug) self w = plot_training_performance self h cw aug w"
| "run_call K S (EvaluationMetrics p tg cw aug) self w = evaluation_metrics S self p tg cw aug w"

fun run_calls :: "keras \<Rightarrow> sklearn \<Rightarrow> call list \<Rightarrow> classifier \<Rightarrow> event list \<Rightarrow> error + (classifier \<times> event list)" where
  "run_calls K S [] self w = Inr (self, w)"
| "run_calls K S (c # cs) self w =
     (case run_call K S c self w of Inl e \<Rightarrow> Inl e | Inr (self', w') \<Rightarrow> run_calls K S cs self' w')"

text \<open>
  The name of the artifact subdirectory as the specification words it:
  \<open>base_model_name\<close> followed by \<^verbatim>\<open>_with_weights\<close> when class weights are used, by
  \<^verbatim>\<open>_data_augmentation\<close> when they are not and augmentation is, and by nothing
  otherwise.
\<close>

definition artifact_subdir :: "string \<Rightarrow> bool \<Rightarrow> bool \<Rightarrow> string" where
  "artifact_subdir name class_weights augment =
     (if class_weights then name @ ''_with_weights''
      else if augment then name @ ''_data_augmentation''
      else name)"

text \<open>The backbone that a supported name stands for.\<close>

definition arch_of :: "string \<Rightarrow> backbone" where
  "arch_of nm = (if nm = ''vgg16'' then VGG16 else if nm = ''inceptionv3'' then InceptionV3 else ResNet50)"

subsection \<open>Sample inputs\<close>

text \<open>
  A framework whose backbones have two layers, both trainable as made, which
  raises nothing beyond the check of the input shape, and whose \<^verbatim>\<open>fit\<close> reports
  one epoch; a statistics library with fixed answers; the
  classifier that the constructor returns for the name \<^verbatim>\<open>VGG16\<close> there; a
  generator with one sample of class 0 and two of class 1, and one with three
  classes.
\<close>

definition sample_keras :: keras where
  "sample_keras =
     \<lparr>application_layers =
        (\<lambda>a s. [\<lparr>op = Pretrained 0, trainable = True\<rparr>, \<lparr>op = Pretrained 1, trainable = True\<rparr>]),
      application_error = (\<lambda>a s. None),
      head_error = (\<lambda>a s n act. None),
      initial_variables = (\<lambda>a s n. [0]),
      fit = (\<lambda>m a. ([1], [(''accuracy'', [1 / 2]), (''val_accuracy'', [1 / 2]),
                           (''loss'', [1]), (''val_loss'', [1])])),
      model_evaluate = (\<lambda>m g n. [1, 1 / 2]),
      model_predict = (\<lambda>m g n. [[3 / 10, 7 / 10], [9 / 10, 1 / 10], [1 / 2, 1 / 2]])\<rparr>"

definition sample_sklearn :: sklearn where
  "sample_sklearn =
     \<lparr>accuracy_score = (\<lambda>t p. 1), f1_score = (\<lambda>t p a. 1), roc_auc_score = (\<lambda>t p. 1),
      precision_recall_curve = (\<lambda>t p. ([1, 1], [1, 0], [1])),
      confusion_matrix = (\<lambda>t p. [[1, 0], [0, 2]]),
      precision_score = (\<lambda>t p. 1), recall_score = (\<lambda>t p. 1)\<rparr>"

definition sample_classifier :: classifier where
  "sample_classifier =
     \<lparr>input_shape = [120, 120], num_classes = 2, activation = ''sigmoid'',
      base_model_name = ''vgg16'',
      model = \<lparr>base = \<lparr>arch = VGG16, weights_arg = ''imagenet'', include_top = False,
                        bm_input_shape = [120, 120, 3],
                        bm_layers = [\<lparr>op = Pretrained 0, trainable = False\<rparr>,
                                     \<lparr>op = Pretrained 1, trainable = False\<rparr>]\<rparr>,
               head = [\<lparr>op = GlobalAveragePooling2D, trainable = True\<rparr>,
                       \<lparr>op = Dense 2 ''sigmoid'', trainable = True\<rparr>],
               optimizer = ''adam'', loss = ''binary_crossentropy'', metrics = [''accuracy''],
               variables = [0]\<rparr>\<rparr>"

definition sample_data :: generator where
  "sample_data = \<lparr>classes = [1, 0, 1], class_indices = [(''cat'', 0), (''dog'', 1)]\<rparr>"

definition three_class_data :: generator where
  "three_class_data =
     \<lparr>classes = [0, 1, 2], class_indices = [(''cat'', 0), (''dog'', 1), (''fox'', 2)]\<rparr>"

definition sample_history :: history where
  "sample_history =
     [(''accuracy'', [1 / 2]), (''val_accuracy'', [1 / 2]), (''loss'', [1]), (''val_loss'', [1])]"

definition sample_prediction :: "real list list" where
  "sample_prediction = [[3 / 10, 7 / 10], [9 / 10, 1 / 10], [1 / 2, 1 / 2]]"

section \<open>Properties\<close>

subsection \<open>Auxiliary facts\<close>

text \<open>When the check of the input shape passes, and what \<^verbatim>\<open>_build_model\<close> returns.\<close>

lemma obtain_input_shape_append:
  "obtain_input_shape a (s @ [3]) =
     (if length s \<noteq> 2 then
        Inl (ValueError ''`input_shape` must be a tuple of three integers.'')
      else if s ! 0 < min_size a \<or> s ! 1 < min_size a then
        Inl (ValueError (''Input size must be at least '' @ min_size_text a))
      else Inr (s @ [3]))"
  by (auto simp: obtain_input_shape_def nth_append)

lemma backbone_call_cases:
  "backbone_call s nm =
     (if nm \<in> {''vgg16'', ''inceptionv3'', ''resnet50''}
      then Inr \<lparr>call_arch = arch_of nm, call_weights = ''imagenet'', call_include_top = False,
                call_input_shape = s @ [3]\<rparr>
      else Inl (ValueError (''Unsupported base model name: '' @ nm)))"
  by (simp add: backbone_call_def arch_of_def)

lemma build_model_cases:
  "build_model K s n a nm =
     (if nm \<notin> {''vgg16'', ''inceptionv3'', ''resnet50''} then
        Inl (ValueError (''Unsupported base model name: '' @ nm))
      else
        (case obtain_input_shape (arch_of nm) (s @ [3]) of
           Inl e \<Rightarrow> Inl e
         | Inr sh \<Rightarrow>
             (case application_error K (arch_of nm) (s @ [3]) of
                Some e \<Rightarrow> Inl e
              | None \<Rightarrow>
                  (case head_error K (arch_of nm) (s @ [3]) n a of
                     Some e \<Rightarrow> Inl e
                   | None \<Rightarrow>
                       Inr \<lparr>base = \<lparr>arch = arch_of nm, weights_arg = ''imagenet'',
                                    include_top = False, bm_input_shape = s @ [3],
                                    bm_layers = map (\<lambda>l. l\<lparr>trainable := False\<rparr>)
                                       (application_layers K (arch_of nm) (s @ [3]))\<rparr>,
                            head = [\<lparr>op = GlobalAveragePooling2D, trainable = True\<rparr>,
                                    \<lparr>op = Dense n a, trainable = True\<rparr>],
                            optimizer = ''adam'', loss = ''binary_crossentropy'',
                            metrics = [''accuracy''],
                            variables = initial_variables K (arch_of nm) (s @ [3]) n\<rparr>))))"
  unfolding build_model_def backbone_call_cases application_def
  by (auto simp: obtain_input_shape_append Let_def split: sum.splits option.splits)

lemma lower_samples:
  "lower ''VGG16'' = ''vgg16''"
  "lower ''vGg16'' = ''vgg16''"
  "lower ''AlexNet'' = ''alexnet''"
  "lower ''ResNet50'' = ''resnet50''"
  "lower ''InceptionV3'' = ''inceptionv3''"
  by code_simp+

lemma lower_char_ascii_lower: "lower_char (ascii_lower c) = lower_char c"
  unfolding lower_char_def ascii_lower_def Let_def by auto

lemma eq_ascii_case_lower:
  assumes "eq_ascii_case s t"
  shows "lower s = lower t"
proof -
  have folded: "lower u = map lower_char (map ascii_lower u)" for u
    by (simp add: lower_def lower_char_ascii_lower)
  from assms have "map ascii_lower s = map ascii_lower t"
    by (simp add: eq_ascii_case_def)
  then show ?thesis
    by (simp only: folded)
qed

lemma eq_ascii_case_sample: "eq_ascii_case ''VGG16'' ''vGg16''"
  by code_simp

lemma init_Inr:
  assumes "init K s n a nm = Inr self"
  shows "lower nm \<in> {''vgg16'', ''inceptionv3'', ''resnet50''}"
    and "self = \<lparr>input_shape = s, num_classes = n, activation = a, base_model_name = lower nm,
                 model = \<lparr>base = \<lparr>arch = arch_of (lower nm), weights_arg = ''imagenet'', include_top = False,
                         bm_input_shape = s @ [3],
                         bm_layers = map (\<lambda>l. l\<lparr>trainable := False\<rparr>)
                                         (application_layers K (arch_of (lower nm)) (s @ [3]))\<rparr>,
                head = [\<lparr>op = GlobalAveragePooling2D, trainable = True\<rparr>,
                        \<lparr>op = Dense n a, trainable = True\<rparr>],
                optimizer = ''adam'', loss = ''binary_crossentropy'', metrics = [''accuracy''],
                variables = initial_variables K (arch_of (lower nm)) (s @ [3]) n\<rparr>\<rparr>"
    and "length s = 2 \<and> min_size (arch_of (lower nm)) \<le> s ! 0 \<and>
         min_size (arch_of (lower nm)) \<le> s ! 1 \<and>
         application_error K (arch_of (lower nm)) (s @ [3]) = None \<and>
         head_error K (arch_of (lower nm)) (s @ [3]) n a = None"
  using assms
  by (auto simp: init_def Let_def build_model_cases obtain_input_shape_append
           split: if_splits sum.splits option.splits)

lemma init_sample:
  "init sample_keras [120, 120] n a ''VGG16'' =
     Inr \<lparr>input_shape = [120, 120], num_classes = n, activation = a, base_model_name = ''vgg16'',
          model = \<lparr>base = \<lparr>arch = VGG16, weights_arg = ''imagenet'', include_top = False,
                            bm_input_shape = [120, 120, 3],
                            bm_layers = [\<lparr>op = Pretrained 0, trainable = False\<rparr>,
                                         \<lparr>op = Pretrained 1, trainable = False\<rparr>]\<rparr>,
                   head = [\<lparr>op = GlobalAveragePooling2D, trainable = True\<rparr>,
                           \<lparr>op = Dense n a, trainable = True\<rparr>],
                   optimizer = ''adam'', loss = ''binary_crossentropy'', metrics = [''accuracy''],
                   variables = [0]\<rparr>\<rparr>"
  by (simp add: init_def Let_def lower_samples build_model_cases obtain_input_shape_def arch_of_def
        min_size_def sample_keras_def)

subsection \<open>Construction\<close>

text \<open>
  C1, as amended. The constructor returns an object exactly when the lowercased
  name is one of \<^verbatim>\<open>vgg16\<close>, \<^verbatim>\<open>inceptionv3\<close>, \<^verbatim>\<open>resnet50\<close> and the framework
  builds the model: \<open>input_shape\<close> is a pair of a height and a width not below the
  minimum of the selected backbone (32 for VGG16 and ResNet50, 75 for
  InceptionV3), and neither the backbone constructor nor the making of the head
  raises anything else. For every other name \<^verbatim>\<open>_build_model\<close> raises ValueError,
  the constructor ends with that exception, and no object is returned.
\<close>

theorem init_returns_iff:
  "((\<exists>self. init K s n a nm = Inr self) \<longleftrightarrow>
      lower nm \<in> {''vgg16'', ''inceptionv3'', ''resnet50''} \<and>
      length s = 2 \<and>
      min_size (arch_of (lower nm)) \<le> s ! 0 \<and> min_size (arch_of (lower nm)) \<le> s ! 1 \<and>
      application_error K (arch_of (lower nm)) (s @ [3]) = None \<and>
      head_error K (arch_of (lower nm)) (s @ [3]) n a = None) \<and>
   (lower nm \<notin> {''vgg16'', ''inceptionv3'', ''resnet50''} \<longrightarrow>
      build_model K s n a (lower nm) =
        Inl (ValueError (''Unsupported base model name: '' @ lower nm)) \<and>
      init K s n a nm = Inl (ValueError (''Unsupported base model name: '' @ lower nm)))"
  by (auto simp: init_def Let_def build_model_cases obtain_input_shape_append
           split: sum.splits option.splits)

theorem init_returns_iff_witness:
  "lower ''AlexNet'' \<notin> {''vgg16'', ''inceptionv3'', ''resnet50''} \<and>
   init sample_keras [120, 120] 2 ''sigmoid'' ''AlexNet'' =
     Inl (ValueError ''Unsupported base model name: alexnet'') \<and>
   (\<exists>self. init sample_keras [120, 120] 2 ''sigmoid'' ''VGG16'' = Inr self)"
  using init_returns_iff [of sample_keras "[120, 120]" 2 "''sigmoid''" "''AlexNet''"]
        init_returns_iff [of sample_keras "[120, 120]" 2 "''sigmoid''" "''VGG16''"]
  by (simp add: lower_samples arch_of_def min_size_def sample_keras_def)

text \<open>
  C1, as stated, fails for a supported name whose backbone constructor raises:
  with the name \<^verbatim>\<open>VGG16\<close> and the input shape \<open>(16, 16)\<close> the constructor is called
  with the shape \<open>(16, 16, 3)\<close>, which is below its minimum of 32 by 32, and its
  ValueError leaves \<^verbatim>\<open>__init__\<close>.
\<close>

theorem supported_name_counterexample:
  "lower ''VGG16'' \<in> {''vgg16'', ''inceptionv3'', ''resnet50''} \<and>
   init sample_keras [16, 16] 2 ''sigmoid'' ''VGG16'' =
     Inl (ValueError ''Input size must be at least 32x32'')"
  by (simp add: init_def Let_def lower_samples build_model_cases obtain_input_shape_def arch_of_def
        min_size_def min_size_text_def)


text \<open>
  C4. A constructed classifier's model is the backbone that its name selects, made
  with the imagenet weights and without its top, followed by exactly one
  GlobalAveragePooling2D layer and one Dense layer with \<open>num_classes\<close> units and
  the constructor's activation; it is compiled with the adam optimizer, the
  binary_crossentropy loss and the accuracy metric.
\<close>

theorem built_model_structure:
  assumes "init K s n a nm = Inr self"
  shows "base_model_name self = lower nm \<and>
         (base_model_name self = ''vgg16'' \<and> arch (base (model self)) = VGG16 \<or>
          base_model_name self = ''inceptionv3'' \<and> arch (base (model self)) = InceptionV3 \<or>
          base_model_name self = ''resnet50'' \<and> arch (base (model self)) = ResNet50) \<and>
         weights_arg (base (model self)) = ''imagenet'' \<and>
         include_top (base (model self)) = False \<and>
         map op (bm_layers (base (model self))) =
           map op (application_layers K (arch (base (model self))) (s @ [3])) \<and>
         map op (head (model self)) = [GlobalAveragePooling2D, Dense n a] \<and>
         model_layers (model self) = bm_layers (base (model self)) @ head (model self) \<and>
         optimizer (model self) = ''adam'' \<and>
         loss (model self) = ''binary_crossentropy'' \<and>
         metrics (model self) = [''accuracy'']"
  using init_Inr(1) [OF assms]
  by (auto simp: init_Inr(2) [OF assms] arch_of_def model_layers_def comp_def)

theorem built_model_structure_witness:
  "\<exists>self. init sample_keras [120, 120] 2 ''sigmoid'' ''VGG16'' = Inr self \<and>
          arch (base (model self)) = VGG16 \<and>
          map op (model_layers (model self)) =
            [Pretrained 0, Pretrained 1, GlobalAveragePooling2D, Dense 2 ''sigmoid''] \<and>
          optimizer (model self) = ''adam'' \<and> loss (model self) = ''binary_crossentropy'' \<and>
          metrics (model self) = [''accuracy'']"
  using built_model_structure [OF init_sample [of 2 "''sigmoid''"]]
  by (simp add: init_sample model_layers_def)



text \<open>
  C10. Two names that are equal up to ASCII case have the same lowercase form, and
  the constructor returns the same result for both: the same backbone and the same
  stored \<open>base_model_name\<close>, hence the same artifact subdirectory and the same
  artifact paths in every later call.
\<close>

theorem init_case_insensitive:
  assumes "eq_ascii_case nm nm'"
  shows "lower nm = lower nm' \<and>
         init K s n a nm = init K s n a nm' \<and>
         artifact_subdir (lower nm) cw aug = artifact_subdir (lower nm') cw aug"
  using eq_ascii_case_lower [OF assms] by (simp add: init_def)

theorem init_case_insensitive_witness:
  "eq_ascii_case ''VGG16'' ''vGg16'' \<and>
   lower ''VGG16'' = lower ''vGg16'' \<and>
   init sample_keras [120, 120] 2 ''sigmoid'' ''VGG16'' =
   init sample_keras [120, 120] 2 ''sigmoid'' ''vGg16''"
  using init_case_insensitive [OF eq_ascii_case_sample, of sample_keras "[120, 120]" 2 "''sigmoid''"]
  by (simp add: eq_ascii_case_sample)


subsection \<open>The operations\<close>

lemma init_sample_classifier:
  "init sample_keras [120, 120] 2 ''sigmoid'' ''VGG16'' = Inr sample_classifier"
  by (simp add: init_sample sample_classifier_def)

lemma train_Inr:
  assumes "train K self td vd ep st sv cw aug w = Inr (h, self', w')"
  shows "\<exists>cwt.
     (if cw then \<exists>ws. compute_class_weight (np_unique (classes td)) (classes td) = Inr ws \<and>
                      2 \<le> length ws \<and> cwt = Some [(0, ws ! 0), (1, ws ! 1)]
      else cwt = None) \<and>
     (let args = \<lparr>fit_x = td, steps_per_epoch = st, fit_epochs = ep, fit_validation_data = vd,
                  validation_steps = sv, fit_class_weight = cwt,
                  callbacks = [EarlyStopping ''val_loss'' 13 True]\<rparr>;
          d = artifact_subdir (base_model_name self) cw aug;
          fitted = (model self)\<lparr>variables := fst (fit K (model self) args)\<rparr>
      in h = snd (fit K (model self) args) \<and> self' = self\<lparr>model := fitted\<rparr> \<and>
         w' = w @ [FitCall (model self) args, Makedirs (os_path_join ''models'' d) True,
                   ModelSave fitted (os_path_join (os_path_join ''models'' d) (d @ ''.h5''))])"
  using assms unfolding train_def model_fit_def artifact_subdir_def Let_def getitem_def
  by (auto split: if_splits sum.splits prod.splits)

lemma np_unique_props:
  "sorted (np_unique ys)" "distinct (np_unique ys)" "set (np_unique ys) = set ys"
  by (simp_all add: np_unique_def)

lemma compute_class_weight_unique:
  "compute_class_weight (np_unique ys) ys =
     Inr (map (\<lambda>c. real (length ys) / (real (length (np_unique ys)) * real (count_list ys c)))
              (np_unique ys))"
  by (simp add: compute_class_weight_def np_unique_props)

lemma train_succeeds_iff:
  "(\<exists>h self' w'. train K self td vd ep st sv cw aug w = Inr (h, self', w')) \<longleftrightarrow>
   (cw \<longrightarrow> 2 \<le> length (np_unique (classes td)))"
  unfolding train_def model_fit_def Let_def getitem_def compute_class_weight_unique
  by (auto split: if_splits sum.splits prod.splits)

lemma made_dirs_append [simp]: "made_dirs (u @ v) = made_dirs u @ made_dirs v"
  by (induction u rule: made_dirs.induct) simp_all

lemma fit_calls_append [simp]: "fit_calls (u @ v) = fit_calls u @ fit_calls v"
  by (induction u rule: fit_calls.induct) simp_all

lemma saves_append [simp]: "saves (u @ v) = saves u @ saves v"
  by (induction u rule: saves.induct) simp_all

lemma plot_training_performance_Inr:
  assumes "plot_training_performance self hist cw aug w = Inr (self', w')"
  shows "self' = self"
    and "made_dirs w' = made_dirs w @ [os_path_join ''graphs'' (artifact_subdir (base_model_name self) cw aug)]"
  using assms unfolding plot_training_performance_def Let_def artifact_subdir_def
  by (auto split: sum.splits if_splits)

lemma evaluation_metrics_Inr:
  assumes "evaluation_metrics S self prediction tg cw aug w = Inr (self', w')"
  shows "self' = self"
    and "made_dirs w' = made_dirs w @ [os_path_join ''graphs'' (artifact_subdir (base_model_name self) cw aug)]"
  using assms unfolding evaluation_metrics_def Let_def artifact_subdir_def
  by (auto split: sum.splits if_splits prod.splits)

lemma run_call_preserves:
  assumes "run_call K S c self w = Inr (self', w')"
  shows "\<exists>vars. self' = self\<lparr>model := (model self)\<lparr>variables := vars\<rparr>\<rparr>"
proof (cases c)
  case (Train td vd e st sv cw aug)
  with assms obtain h where "train K self td vd e st sv cw aug w = Inr (h, self', w')"
    by (auto split: sum.splits)
  from train_Inr [OF this] show ?thesis
    by (auto simp: Let_def)
next
  case (Evaluate vd st)
  with assms have "self' = self"
    by (simp add: evaluate_def)
  then show ?thesis
    by (intro exI [of _ "variables (model self)"]) simp
next
  case (Test tg st)
  with assms have "self' = self"
    by (simp add: test_def Let_def)
  then show ?thesis
    by (intro exI [of _ "variables (model self)"]) simp
next
  case (PlotTrainingPerformance h cw aug)
  with assms have "self' = self"
    by (simp add: plot_training_performance_Inr(1))
  then show ?thesis
    by (intro exI [of _ "variables (model self)"]) simp
next
  case (EvaluationMetrics p tg cw aug)
  with assms have "self' = self"
    by (simp add: evaluation_metrics_Inr(1))
  then show ?thesis
    by (intro exI [of _ "variables (model self)"]) simp
qed

lemma run_calls_preserves:
  assumes "run_calls K S cs self w = Inr (self', w')"
  shows "\<exists>vars. self' = self\<lparr>model := (model self)\<lparr>variables := vars\<rparr>\<rparr>"
  using assms
proof (induction cs arbitrary: self w)
  case Nil
  then have "self' = self" by simp
  then show ?case
    by (intro exI [of _ "variables (model self)"]) simp
next
  case (Cons c cs)
  then obtain mid wm where step: "run_call K S c self w = Inr (mid, wm)"
    and rest: "run_calls K S cs mid wm = Inr (self', w')"
    by (auto split: sum.splits)
  from run_call_preserves [OF step] obtain v1 where
    mid: "mid = self\<lparr>model := (model self)\<lparr>variables := v1\<rparr>\<rparr>" by blast
  from Cons.IH [OF rest] obtain v2 where
    "self' = mid\<lparr>model := (model mid)\<lparr>variables := v2\<rparr>\<rparr>" by blast
  with mid have "self' = self\<lparr>model := (model self)\<lparr>variables := v2\<rparr>\<rparr>"
    by simp
  then show ?case by blast
qed

text \<open>
  C3. After the constructor returns, every layer of the backbone has
  \<open>trainable = False\<close> and the trainable layers of the model are exactly the two
  layers of the head. Whatever sequence of \<^verbatim>\<open>train\<close>, \<^verbatim>\<open>evaluate\<close>, \<^verbatim>\<open>test\<close>,
  \<^verbatim>\<open>plot_training_performance\<close> and \<^verbatim>\<open>evaluation_metrics\<close> calls follows, the layers
  and their flags are the same afterwards.
\<close>

theorem backbone_stays_frozen:
  assumes "init K s n a nm = Inr self"
      and "run_calls K S cs self w = Inr (self', w')"
  shows "list_all (\<lambda>l. \<not> trainable l) (bm_layers (base (model self))) \<and>
         filter trainable (model_layers (model self)) = head (model self) \<and>
         head (model self) \<noteq> [] \<and>
         model_layers (model self') = model_layers (model self) \<and>
         map trainable (model_layers (model self')) = map trainable (model_layers (model self))"
proof -
  from run_calls_preserves [OF assms(2)] obtain vars where
    "self' = self\<lparr>model := (model self)\<lparr>variables := vars\<rparr>\<rparr>" by blast
  then have same: "model_layers (model self') = model_layers (model self)"
    by (simp add: model_layers_def)
  have frozen: "list_all (\<lambda>l. \<not> trainable l) (bm_layers (base (model self)))"
    by (simp add: init_Inr(2) [OF assms(1)] list_all_iff)
  have hd: "list_all trainable (head (model self))" "head (model self) \<noteq> []"
    by (simp_all add: init_Inr(2) [OF assms(1)])
  from frozen have "filter trainable (bm_layers (base (model self))) = []"
    by (simp add: list_all_iff filter_empty_conv)
  moreover from hd(1) have "filter trainable (head (model self)) = head (model self)"
    by (simp add: list_all_iff filter_id_conv)
  ultimately have "filter trainable (model_layers (model self)) = head (model self)"
    by (simp add: model_layers_def)
  with frozen hd(2) same show ?thesis by simp
qed

lemma sample_np_unique:
  "np_unique (classes sample_data) = [0, 1]"
  "np_unique (classes three_class_data) = [0, 1, 2]"
  by (simp_all add: np_unique_def sample_data_def three_class_data_def)

lemma sample_train:
  "\<exists>h self' w'. train sample_keras sample_classifier sample_data sample_data 5 1 1 cw aug [] =
     Inr (h, self', w')"
  by (simp add: train_succeeds_iff sample_np_unique)

lemma sample_calls:
  "\<exists>self' w'. run_calls sample_keras sample_sklearn
      [Train sample_data sample_data 5 1 1 True True, Evaluate sample_data 1, Test sample_data 1]
      sample_classifier [] = Inr (self', w')"
proof -
  from sample_train [of True True] obtain h s1 w1 where
    "train sample_keras sample_classifier sample_data sample_data 5 1 1 True True [] = Inr (h, s1, w1)"
    by blast
  then show ?thesis
    by (simp add: evaluate_def test_def Let_def)
qed

theorem backbone_stays_frozen_witness:
  "\<exists>self' w'. 
     init sample_keras [120, 120] 2 ''sigmoid'' ''VGG16'' = Inr sample_classifier \<and>
     run_calls sample_keras sample_sklearn
      [Train sample_data sample_data 5 1 1 True True, Evaluate sample_data 1, Test sample_data 1]
      sample_classifier [] = Inr (self', w') \<and>
     map trainable (model_layers (model self')) = [False, False, True, True]"
proof -
  from sample_calls obtain self' w' where run:
    "run_calls sample_keras sample_sklearn
      [Train sample_data sample_data 5 1 1 True True, Evaluate sample_data 1, Test sample_data 1]
      sample_classifier [] = Inr (self', w')" by blast
  from backbone_stays_frozen [OF init_sample_classifier run]
  have flags: "map trainable (model_layers (model self')) = [False, False, True, True]"
    by (simp add: sample_classifier_def model_layers_def)
  show ?thesis
    by (rule exI [of _ self'], rule exI [of _ w'])
       (simp only: init_sample_classifier run flags simp_thms)
qed

lemma run_calls_name:
  assumes "init K s n a nm = Inr self0" and "run_calls K S cs self0 w0 = Inr (self, w)"
  shows "base_model_name self = lower nm"
    and "lower nm \<in> {''vgg16'', ''inceptionv3'', ''resnet50''}"
proof -
  from run_calls_preserves [OF assms(2)] have "base_model_name self = base_model_name self0"
    by auto
  then show "base_model_name self = lower nm"
    by (simp add: init_Inr(2) [OF assms(1)])
  show "lower nm \<in> {''vgg16'', ''inceptionv3'', ''resnet50''}"
    by (rule init_Inr(1) [OF assms(1)])
qed

lemma supported_paths:
  assumes "nm \<in> {''vgg16'', ''inceptionv3'', ''resnet50''}"
  shows "os_path_join ''models'' (artifact_subdir nm cw aug) = ''models/'' @ artifact_subdir nm cw aug"
    and "os_path_join (''models/'' @ artifact_subdir nm cw aug) (artifact_subdir nm cw aug @ ''.h5'') =
           ''models/'' @ artifact_subdir nm cw aug @ ''/'' @ artifact_subdir nm cw aug @ ''.h5''"
  using assms by (auto simp: os_path_join_def artifact_subdir_def)

lemma artifact_subdir_suffix:
  "artifact_subdir nm cw aug =
     nm @ (if cw then ''_with_weights'' else if aug then ''_data_augmentation'' else [])"
  by (simp add: artifact_subdir_def)

text \<open>
  C5. A successful call of \<^verbatim>\<open>train\<close> on a classifier that the constructor has
  returned, after any sequence of calls, adds three events: the \<^verbatim>\<open>fit\<close> call, the
  creation of the directory \<^verbatim>\<open>models/<d>\<close> with \<^verbatim>\<open>exist_ok=True\<close>, and one save of
  the fitted model at \<^verbatim>\<open>models/<d>/<d>.h5\<close>, where \<^verbatim>\<open><d>\<close> is \<open>base_model_name\<close>
  followed by \<^verbatim>\<open>_with_weights\<close> when \<open>class_weights\<close> holds, by \<^verbatim>\<open>_data_augmentation\<close>
  when it does not and \<open>augment\<close> holds, and by nothing otherwise. The history
  returned is the one that \<^verbatim>\<open>fit\<close> returned.
\<close>

theorem train_saves_once:
  assumes "init K s n a nm = Inr self0"
      and "run_calls K S cs self0 w0 = Inr (self, w)"
      and "train K self td vd ep st sv cw aug w = Inr (h, self', w')"
  shows "\<exists>args.
     (let d = base_model_name self @
                (if cw then ''_with_weights'' else if aug then ''_data_augmentation'' else [])
      in w' = w @ [FitCall (model self) args, Makedirs (''models/'' @ d) True,
                   ModelSave (model self') (''models/'' @ d @ ''/'' @ d @ ''.h5'')] \<and>
         saves w' = saves w @ [(model self', ''models/'' @ d @ ''/'' @ d @ ''.h5'')]) \<and>
     h = snd (fit K (model self) args) \<and>
     model self' = (model self)\<lparr>variables := fst (fit K (model self) args)\<rparr>"
proof -
  note nm = run_calls_name [OF assms(1,2)]
  from train_Inr [OF assms(3)] obtain args where
    h: "h = snd (fit K (model self) args)" and
    s: "self' = self\<lparr>model := (model self)\<lparr>variables := fst (fit K (model self) args)\<rparr>\<rparr>" and
    w: "w' = w @ [FitCall (model self) args,
                  Makedirs (os_path_join ''models'' (artifact_subdir (base_model_name self) cw aug)) True,
                  ModelSave ((model self)\<lparr>variables := fst (fit K (model self) args)\<rparr>)
                    (os_path_join (os_path_join ''models'' (artifact_subdir (base_model_name self) cw aug))
                       (artifact_subdir (base_model_name self) cw aug @ ''.h5''))]"
    by (auto simp: Let_def)
  from nm have sup: "base_model_name self \<in> {''vgg16'', ''inceptionv3'', ''resnet50''}"
    by simp
  from s have m: "model self' = (model self)\<lparr>variables := fst (fit K (model self) args)\<rparr>"
    by simp
  from w have w2: "w' = w @ [FitCall (model self) args,
                  Makedirs (''models/'' @ artifact_subdir (base_model_name self) cw aug) True,
                  ModelSave (model self')
                    (''models/'' @ artifact_subdir (base_model_name self) cw aug @ ''/'' @
                       artifact_subdir (base_model_name self) cw aug @ ''.h5'')]"
    by (simp only: supported_paths [OF sup] m)
  show ?thesis
    unfolding Let_def artifact_subdir_suffix [symmetric]
    by (rule exI [of _ args]) (simp add: h m w2)
qed

text \<open>
  C8. A successful call of \<^verbatim>\<open>train\<close> makes exactly one \<^verbatim>\<open>fit\<close> call, and that call
  receives exactly one callback: early stopping that monitors \<^verbatim>\<open>val_loss\<close> with
  patience 13 and restores the best weights, whatever \<open>class_weights\<close> and
  \<open>augment\<close> are.
\<close>

theorem train_single_callback:
  assumes "train K self td vd ep st sv cw aug w = Inr (h, self', w')"
  shows "\<exists>args. fit_calls w' = fit_calls w @ [args] \<and>
                callbacks args = [EarlyStopping ''val_loss'' 13 True]"
  using train_Inr [OF assms] by (auto simp: Let_def)

lemma np_unique_card: "length (np_unique ys) = card (set ys)"
  by (simp add: np_unique_def length_remdups_card_conv)

text \<open>
  C2, as amended. A successful call of \<^verbatim>\<open>train\<close> with \<open>class_weights = True\<close>
  passes exactly two class weights to \<^verbatim>\<open>fit\<close>, under the keys 0 and 1: the
  balanced weights, number of samples divided by the number of distinct labels
  times the number of samples of the class, of the smallest and of the second
  smallest label of \<^verbatim>\<open>train_data.classes\<close>. When the labels present are exactly 0
  and 1 these are one entry for every class present, each under its own label.
\<close>

theorem train_class_weight_entries:
  assumes "train K self td vd ep st sv True aug w = Inr (h, self', w')"
  shows "\<exists>args c0 c1 rest.
           fit_calls w' = fit_calls w @ [args] \<and>
           np_unique (classes td) = c0 # c1 # rest \<and>
           fit_class_weight args =
             Some [(0, real (length (classes td)) /
                         (real (card (set (classes td))) * real (count_list (classes td) c0))),
                   (1, real (length (classes td)) /
                         (real (card (set (classes td))) * real (count_list (classes td) c1)))] \<and>
           sorted (c0 # c1 # rest) \<and> distinct (c0 # c1 # rest) \<and>
           set (c0 # c1 # rest) = set (classes td) \<and>
           (set (classes td) = {0, 1} \<longrightarrow> c0 = 0 \<and> c1 = 1 \<and> rest = [])"
proof -
  from train_Inr [OF assms] obtain cwt ws where
    ws: "compute_class_weight (np_unique (classes td)) (classes td) = Inr ws" "2 \<le> length ws"
        "cwt = Some [(0, ws ! 0), (1, ws ! 1)]" and
    w: "w' = w @ [FitCall (model self)
                   \<lparr>fit_x = td, steps_per_epoch = st, fit_epochs = ep, fit_validation_data = vd,
                    validation_steps = sv, fit_class_weight = cwt,
                    callbacks = [EarlyStopping ''val_loss'' 13 True]\<rparr>,
                  Makedirs (os_path_join ''models'' (artifact_subdir (base_model_name self) True aug)) True,
                  ModelSave ((model self)\<lparr>variables := fst (fit K (model self)
                   \<lparr>fit_x = td, steps_per_epoch = st, fit_epochs = ep, fit_validation_data = vd,
                    validation_steps = sv, fit_class_weight = cwt,
                    callbacks = [EarlyStopping ''val_loss'' 13 True]\<rparr>)\<rparr>)
                    (os_path_join (os_path_join ''models'' (artifact_subdir (base_model_name self) True aug))
                       (artifact_subdir (base_model_name self) True aug @ ''.h5''))]"
    by (auto simp: Let_def)
  from ws(1) have wsmap: "ws = map (\<lambda>c. real (length (classes td)) /
              (real (card (set (classes td))) * real (count_list (classes td) c))) (np_unique (classes td))"
    by (simp add: compute_class_weight_unique np_unique_card)
  with ws(2) have "2 \<le> length (np_unique (classes td))" by simp
  then obtain c0 c1 rest where u: "np_unique (classes td) = c0 # c1 # rest"
    by (cases "np_unique (classes td)"; cases "tl (np_unique (classes td))") auto
  have binary: "c0 = 0 \<and> c1 = 1 \<and> rest = []" if "set (classes td) = {0, 1}"
  proof -
    have "sorted (c0 # c1 # rest)" "distinct (c0 # c1 # rest)" "set (c0 # c1 # rest) = {0, 1}"
      using np_unique_props [of "classes td"] that by (simp_all add: u)
    moreover have "sorted [0, 1 :: int]" "distinct [0, 1 :: int]" "set [0, 1 :: int] = {0, 1}"
      by simp_all
    ultimately have "c0 # c1 # rest = [0, 1]"
      by (metis sorted_distinct_set_unique)
    then show ?thesis by simp
  qed
  show ?thesis
    apply (rule exI [of _ "\<lparr>fit_x = td, steps_per_epoch = st, fit_epochs = ep, fit_validation_data = vd,
                    validation_steps = sv, fit_class_weight = cwt,
                    callbacks = [EarlyStopping ''val_loss'' 13 True]\<rparr>"])
    apply (rule exI [of _ c0], rule exI [of _ c1], rule exI [of _ rest])
    using binary np_unique_props [of "classes td"] by (simp add: w u ws(3) wsmap)
qed

lemma run_calls_none: "run_calls K S [] self w = Inr (self, w)"
  by simp

theorem train_saves_once_witness:
  "\<exists>h self' w'.
     train sample_keras sample_classifier sample_data sample_data 5 1 1 False True [] =
       Inr (h, self', w') \<and>
     h = sample_history \<and>
     saves w' = [(model self', ''models/vgg16_data_augmentation/vgg16_data_augmentation.h5'')] \<and>
     made_dirs w' = [''models/vgg16_data_augmentation'']"
proof -
  from sample_train [of False True] obtain h self' w' where tr:
    "train sample_keras sample_classifier sample_data sample_data 5 1 1 False True [] =
       Inr (h, self', w')"
    by blast
  from train_saves_once [OF init_sample_classifier run_calls_none [of sample_keras sample_sklearn] tr]
  have "h = sample_history \<and>
        saves w' = [(model self', ''models/vgg16_data_augmentation/vgg16_data_augmentation.h5'')] \<and>
        made_dirs w' = [''models/vgg16_data_augmentation'']"
    by (auto simp: Let_def sample_classifier_def sample_keras_def sample_history_def)
  with tr show ?thesis
    by (intro exI [of _ h] exI [of _ self'] exI [of _ w']) simp
qed

theorem train_single_callback_witness:
  "\<exists>h self' w'.
     train sample_keras sample_classifier sample_data sample_data 5 1 1 True True [] =
       Inr (h, self', w') \<and>
     map callbacks (fit_calls w') = [[EarlyStopping ''val_loss'' 13 True]]"
proof -
  from sample_train [of True True] obtain h self' w' where tr:
    "train sample_keras sample_classifier sample_data sample_data 5 1 1 True True [] =
       Inr (h, self', w')"
    by blast
  from train_single_callback [OF tr]
  have "map callbacks (fit_calls w') = [[EarlyStopping ''val_loss'' 13 True]]"
    by auto
  with tr show ?thesis
    by (intro exI [of _ h] exI [of _ self'] exI [of _ w']) simp
qed

lemma sample_card: "card (set (classes sample_data)) = 2"
  using np_unique_card [of "classes sample_data"] by (simp add: sample_np_unique)

theorem train_class_weight_entries_witness:
  "\<exists>h self' w'.
     train sample_keras sample_classifier sample_data sample_data 5 1 1 True True [] =
       Inr (h, self', w') \<and>
     map fit_class_weight (fit_calls w') = [Some [(0, 3 / 2), (1, 3 / 4)]]"
proof -
  from sample_train [of True True] obtain h self' w' where tr:
    "train sample_keras sample_classifier sample_data sample_data 5 1 1 True True [] =
       Inr (h, self', w')"
    by blast
  from train_class_weight_entries [OF tr]
  have "map fit_class_weight (fit_calls w') = [Some [(0, 3 / 2), (1, 3 / 4)]]"
    by (auto simp: sample_np_unique sample_card) (simp_all add: sample_data_def)
  with tr show ?thesis
    by (intro exI [of _ h] exI [of _ self'] exI [of _ w']) simp
qed

lemma three_class_train:
  "\<exists>h self' w'. train sample_keras sample_classifier three_class_data sample_data 5 1 1 True True [] =
     Inr (h, self', w')"
  by (simp add: train_succeeds_iff sample_np_unique)

lemma three_class_weights:
  "compute_class_weight (np_unique (classes three_class_data)) (classes three_class_data) =
     Inr [1, 1, 1]"
  by (subst compute_class_weight_unique) (simp add: three_class_data_def np_unique_def)

text \<open>
  C2, as stated, fails on a generator with the three classes 0, 1 and 2: \<^verbatim>\<open>fit\<close>
  receives weights for the keys 0 and 1 only, and none for class 2.
\<close>

theorem class_weight_per_class_counterexample:
  "\<exists>h self' w'.
     train sample_keras sample_classifier three_class_data sample_data 5 1 1 True True [] =
       Inr (h, self', w') \<and>
     map fit_class_weight (fit_calls w') = [Some [(0, 1), (1, 1)]] \<and>
     map_of [(0 :: int, 1 :: real), (1, 1)] 2 = None \<and>
     2 \<in> set (classes three_class_data)"
proof -
  from three_class_train obtain h self' w' where tr:
    "train sample_keras sample_classifier three_class_data sample_data 5 1 1 True True [] =
       Inr (h, self', w')"
    by blast
  from train_Inr [OF tr]
  have "map fit_class_weight (fit_calls w') = [Some [(0, 1), (1, 1)]]"
    by (auto simp: Let_def three_class_weights)
  moreover have "2 \<in> set (classes three_class_data)"
    by (simp add: three_class_data_def)
  ultimately show ?thesis
    using tr by (intro exI [of _ h] exI [of _ self'] exI [of _ w']) simp
qed

text \<open>
  C7. For every \<open>base_model_name\<close> and every pair of booleans, the three methods
  that write artifacts create the directory of the same subdirectory name:
  \<^verbatim>\<open>train\<close>, whose choice is an \<^verbatim>\<open>if\<close> nested in an \<^verbatim>\<open>else\<close>, under \<^verbatim>\<open>models\<close>, and
  \<^verbatim>\<open>plot_training_performance\<close> and \<^verbatim>\<open>evaluation_metrics\<close>, whose choice is an
  \<^verbatim>\<open>if/elif/else\<close> chain, under \<^verbatim>\<open>graphs\<close>.
\<close>

theorem artifact_dirs_agree:
  assumes "train K self td vd ep st sv cw aug w1 = Inr (h, self1, w1')"
      and "plot_training_performance self hist cw aug w2 = Inr (self2, w2')"
      and "evaluation_metrics S self prediction tg cw aug w3 = Inr (self3, w3')"
  shows "made_dirs w1' = made_dirs w1 @ [os_path_join ''models'' (artifact_subdir (base_model_name self) cw aug)] \<and>
         made_dirs w2' = made_dirs w2 @ [os_path_join ''graphs'' (artifact_subdir (base_model_name self) cw aug)] \<and>
         made_dirs w3' = made_dirs w3 @ [os_path_join ''graphs'' (artifact_subdir (base_model_name self) cw aug)]"
proof -
  from train_Inr [OF assms(1)]
  have "made_dirs w1' = made_dirs w1 @ [os_path_join ''models'' (artifact_subdir (base_model_name self) cw aug)]"
    by (auto simp: Let_def)
  with plot_training_performance_Inr(2) [OF assms(2)] evaluation_metrics_Inr(2) [OF assms(3)]
  show ?thesis by simp
qed

lemma sample_plot:
  "\<exists>self' w'. plot_training_performance sample_classifier sample_history cw aug [] = Inr (self', w')"
  by (simp add: plot_training_performance_def lookup_def getitem_def sample_history_def Let_def)

lemma sample_argmax: "np_argmax_axis1 sample_prediction = Inr [1, 0, 0]"
  by (simp add: sample_prediction_def np_argmax_def)

lemma sample_metrics:
  "\<exists>self' w'. evaluation_metrics sample_sklearn sample_classifier sample_prediction sample_data cw aug [] =
     Inr (self', w')"
  by (simp add: evaluation_metrics_def sample_argmax Let_def split: prod.splits)

theorem artifact_dirs_agree_witness:
  "\<exists>h self1 w1 self2 w2 self3 w3.
     train sample_keras sample_classifier sample_data sample_data 5 1 1 False True [] = Inr (h, self1, w1) \<and>
     plot_training_performance sample_classifier sample_history False True [] = Inr (self2, w2) \<and>
     evaluation_metrics sample_sklearn sample_classifier sample_prediction sample_data False True [] =
       Inr (self3, w3) \<and>
     made_dirs w1 = [''models/vgg16_data_augmentation''] \<and>
     made_dirs w2 = [''graphs/vgg16_data_augmentation''] \<and>
     made_dirs w3 = [''graphs/vgg16_data_augmentation'']"
proof -
  from sample_train [of False True] obtain h self1 w1 where tr:
    "train sample_keras sample_classifier sample_data sample_data 5 1 1 False True [] = Inr (h, self1, w1)"
    by blast
  from sample_plot [of False True] obtain self2 w2 where pl:
    "plot_training_performance sample_classifier sample_history False True [] = Inr (self2, w2)"
    by blast
  from sample_metrics [of False True] obtain self3 w3 where ev:
    "evaluation_metrics sample_sklearn sample_classifier sample_prediction sample_data False True [] =
       Inr (self3, w3)"
    by blast
  from artifact_dirs_agree [OF tr pl ev]
  have "made_dirs w1 = [''models/vgg16_data_augmentation''] \<and>
        made_dirs w2 = [''graphs/vgg16_data_augmentation''] \<and>
        made_dirs w3 = [''graphs/vgg16_data_augmentation'']"
    by (simp add: sample_classifier_def artifact_subdir_def os_path_join_def)
  with tr pl ev show ?thesis
    by (intro exI [of _ h] exI [of _ self1] exI [of _ w1] exI [of _ self2] exI [of _ w2]
          exI [of _ self3] exI [of _ w3]) simp
qed

lemma argmax_from_spec:
  assumes "bi < length pre" and "pre ! bi = best"
      and "list_all (\<lambda>x. x \<le> best) pre" and "list_all (\<lambda>x. x < best) (take bi pre)"
      and "i = length pre"
  shows "is_first_max (pre @ xs) (argmax_from xs i best bi)"
  using assms
proof (induction xs arbitrary: pre bi best i)
  case Nil
  then show ?case by (simp add: is_first_max_def)
next
  case (Cons x xs)
  show ?case
  proof (cases "best < x")
    case True
    have "is_first_max ((pre @ [x]) @ xs) (argmax_from xs (Suc i) x i)"
    proof (rule Cons.IH)
      show "i < length (pre @ [x])" using Cons.prems(5) by simp
      show "(pre @ [x]) ! i = x" using Cons.prems(5) by simp
      show "list_all (\<lambda>y. y \<le> x) (pre @ [x])"
        using Cons.prems(3) True by (auto simp: list_all_iff)
      show "list_all (\<lambda>y. y < x) (take i (pre @ [x]))"
        using Cons.prems(3,5) True by (auto simp: list_all_iff)
      show "Suc i = length (pre @ [x])" using Cons.prems(5) by simp
    qed
    with True show ?thesis by simp
  next
    case False
    have "is_first_max ((pre @ [x]) @ xs) (argmax_from xs (Suc i) best bi)"
    proof (rule Cons.IH)
      show "bi < length (pre @ [x])" using Cons.prems(1) by simp
      show "(pre @ [x]) ! bi = best" using Cons.prems(1,2) by (simp add: nth_append)
      show "list_all (\<lambda>y. y \<le> best) (pre @ [x])"
        using Cons.prems(3) False by (auto simp: list_all_iff)
      show "list_all (\<lambda>y. y < best) (take bi (pre @ [x]))"
        using Cons.prems(1,4) by simp
      show "Suc i = length (pre @ [x])" using Cons.prems(5) by simp
    qed
    with False show ?thesis by simp
  qed
qed

lemma np_argmax_spec:
  assumes "np_argmax row = Inr k"
  shows "is_first_max row k"
proof (cases row)
  case Nil
  with assms show ?thesis by (simp add: np_argmax_def)
next
  case (Cons x xs)
  with assms have k: "k = argmax_from xs 1 x 0" by (simp add: np_argmax_def)
  have "is_first_max ([x] @ xs) (argmax_from xs 1 x 0)"
    by (rule argmax_from_spec) simp_all
  with k Cons show ?thesis by simp
qed

lemma np_argmax_axis1_spec:
  assumes "np_argmax_axis1 rows = Inr pred"
  shows "length pred = length rows \<and>
         (\<forall>i<length rows. 0 \<le> pred ! i \<and> is_first_max (rows ! i) (nat (pred ! i)))"
  using assms
proof (induction rows arbitrary: pred)
  case Nil
  then show ?case by simp
next
  case (Cons row rows)
  then obtain k ks where k: "np_argmax row = Inr k" and ks: "np_argmax_axis1 rows = Inr ks"
    and pred: "pred = int k # ks"
    by (auto split: sum.splits)
  from Cons.IH [OF ks] np_argmax_spec [OF k] pred show ?case
    by (auto simp: nth_Cons split: nat.splits)
qed

text \<open>
  C6. In a call of \<^verbatim>\<open>evaluation_metrics\<close> that returns, the predicted label of
  every sample is the index of the first greatest entry of its row of the
  prediction, and every number drawn or printed (accuracy, macro-averaged F1,
  ROC-AUC, precision, recall, the precision-recall curve and the confusion
  matrix) is what the statistics library computes from the true labels of the
  test generator and that one vector of predicted labels.
\<close>

theorem evaluation_metrics_from_argmax:
  assumes "evaluation_metrics S self prediction tg cw aug w = Inr (self', w')"
  shows "\<exists>pred.
     np_argmax_axis1 prediction = Inr pred \<and>
     length pred = length prediction \<and>
     (\<forall>i<length prediction. 0 \<le> pred ! i \<and> is_first_max (prediction ! i) (nat (pred ! i))) \<and>
     (let t = classes tg;
          curve = precision_recall_curve S t pred;
          dir = os_path_join ''graphs'' (artifact_subdir (base_model_name self) cw aug);
          names = map fst (class_indices tg)
      in w' = w @ [Figure 15 15, Subplot 2 2 1, Plot (fst curve) (fst (snd curve)) None,
                   Title ''Precision vs Recall'', Subplot 2 2 2,
                   PltText [(''F1 Score: '', f1_score S t pred ''macro''),
                            (''ROC AUC: '', roc_auc_score S t pred),
                            (''Acc: '', accuracy_score S t pred)],
                   Makedirs dir True, Savefig (os_path_join dir ''precision_recall_graph.png''),
                   Figure 8 8, Heatmap (confusion_matrix S t pred) names names,
                   Title ''Confusion Matrix'', Xlabel ''Predicted'', Ylabel ''Actual'',
                   Savefig (os_path_join dir ''confusion_matrix.png''), Show,
                   Print ''Accuracy:'' (accuracy_score S t pred),
                   Print ''Precision:'' (precision_score S t pred),
                   Print ''Recall:'' (recall_score S t pred),
                   Print ''F1 Score:'' (f1_score S t pred ''macro''),
                   Print ''ROC AUC Score: '' (roc_auc_score S t pred)])"
proof -
  from assms obtain pred where pred: "np_argmax_axis1 prediction = Inr pred"
    by (auto simp: evaluation_metrics_def split: sum.splits)
  with assms have trace: "let t = classes tg;
          curve = precision_recall_curve S t pred;
          dir = os_path_join ''graphs'' (artifact_subdir (base_model_name self) cw aug);
          names = map fst (class_indices tg)
      in w' = w @ [Figure 15 15, Subplot 2 2 1, Plot (fst curve) (fst (snd curve)) None,
                   Title ''Precision vs Recall'', Subplot 2 2 2,
                   PltText [(''F1 Score: '', f1_score S t pred ''macro''),
                            (''ROC AUC: '', roc_auc_score S t pred),
                            (''Acc: '', accuracy_score S t pred)],
                   Makedirs dir True, Savefig (os_path_join dir ''precision_recall_graph.png''),
                   Figure 8 8, Heatmap (confusion_matrix S t pred) names names,
                   Title ''Confusion Matrix'', Xlabel ''Predicted'', Ylabel ''Actual'',
                   Savefig (os_path_join dir ''confusion_matrix.png''), Show,
                   Print ''Accuracy:'' (accuracy_score S t pred),
                   Print ''Precision:'' (precision_score S t pred),
                   Print ''Recall:'' (recall_score S t pred),
                   Print ''F1 Score:'' (f1_score S t pred ''macro''),
                   Print ''ROC AUC Score: '' (roc_auc_score S t pred)]"
    by (auto simp: evaluation_metrics_def Let_def artifact_subdir_def split: prod.splits)
  from np_argmax_axis1_spec [OF pred] pred trace show ?thesis
    by (intro exI [of _ pred]) simp
qed

theorem evaluation_metrics_from_argmax_witness:
  "\<exists>self' w'.
     evaluation_metrics sample_sklearn sample_classifier sample_prediction sample_data True True [] =
       Inr (self', w') \<and>
     np_argmax_axis1 sample_prediction = Inr [1, 0, 0] \<and>
     Print ''Accuracy:'' (accuracy_score sample_sklearn (classes sample_data) [1, 0, 0]) \<in> set w' \<and>
     Heatmap (confusion_matrix sample_sklearn (classes sample_data) [1, 0, 0])
       [''cat'', ''dog''] [''cat'', ''dog''] \<in> set w'"
proof -
  from sample_metrics [of True True] obtain self' w' where ev:
    "evaluation_metrics sample_sklearn sample_classifier sample_prediction sample_data True True [] =
       Inr (self', w')"
    by blast
  from evaluation_metrics_from_argmax [OF ev]
  have "Print ''Accuracy:'' (accuracy_score sample_sklearn (classes sample_data) [1, 0, 0]) \<in> set w' \<and>
        Heatmap (confusion_matrix sample_sklearn (classes sample_data) [1, 0, 0])
          [''cat'', ''dog''] [''cat'', ''dog''] \<in> set w'"
    by (auto simp: sample_argmax Let_def) (simp add: sample_data_def)
  with ev sample_argmax show ?thesis
    by (intro exI [of _ self'] exI [of _ w']) simp
qed

end
